theory Spec2Isabelle
  imports Complex_Main "HOL-Library.Sublist"
begin

section \<open>String primitives of the content script\<close>

text \<open>
  JavaScript strings are modelled as \<open>string\<close> (lists of 8-bit characters), so the model
  covers ASCII text: \<open>length\<close> is the number of characters, \<open>toLowerCase\<close> maps
  \<open>A..Z\<close> to \<open>a..z\<close>, and whitespace (\<open>\s\<close>) is space, tab, line feed, vertical tab,
  form feed and carriage return.
\<close>

definition lowerChar :: "char \<Rightarrow> char" where
  "lowerChar c =
     (case map_of (zip ''ABCDEFGHIJKLMNOPQRSTUVWXYZ'' ''abcdefghijklmnopqrstuvwxyz'') c of
        Some d \<Rightarrow> d
      | None \<Rightarrow> c)"

definition toLowerCase :: "string \<Rightarrow> string" where
  "toLowerCase s = map lowerChar s"

text \<open>\<open>text.includes(pattern)\<close>: the pattern occurs as a contiguous substring.\<close>

fun str_includes :: "'a list \<Rightarrow> 'a list \<Rightarrow> bool" where
  "str_includes [] p = (p = [])"
| "str_includes (x # xs) p = (prefix p (x # xs) \<or> str_includes xs p)"

definition isSpace :: "char \<Rightarrow> bool" where
  "isSpace c = (c \<in> set [CHR '' '', CHR 0x09, CHR 0x0A, CHR 0x0B, CHR 0x0C, CHR 0x0D])"

definition isLetter :: "char \<Rightarrow> bool" where
  "isLetter c =
     (c \<in> set (''ABCDEFGHIJKLMNOPQRSTUVWXYZ'' @ ''abcdefghijklmnopqrstuvwxyz''))"

definition trim :: "string \<Rightarrow> string" where
  "trim s = rev (dropWhile isSpace (rev (dropWhile isSpace s)))"

section \<open>Radio writer\<close>






section \<open>Resilience layer: liveness signalling and context invalidation\<close>

text \<open>
  The fields of the detector object and of the page that \<open>setupKeepAlive\<close>,
  \<open>handleContextInvalidation\<close> and \<open>showContextInvalidationMessage\<close> read and write.
  \<open>mutationObserver\<close> and \<open>pingInterval\<close> say whether the field of that name holds a
  handle (non-null); \<open>observerConnected\<close> and \<open>intervalRunning\<close> are the browser's side
  of those handles. \<open>noticePresent\<close> says whether an element with id
  \<open>ai-form-filler-context-error\<close> is in the document, \<open>noticesShown\<close> counts the notices
  appended so far. DOM calls inside the \<open>try\<close> blocks (\<open>remove\<close>, \<open>disconnect\<close>,
  \<open>clearInterval\<close>, \<open>appendChild\<close>) are taken not to throw.
\<close>

record session =
  isInitialized :: bool
  messageListenerActive :: bool
  contextInvalidated :: bool
  mutationObserver :: bool
  observerConnected :: bool
  pingInterval :: bool
  intervalRunning :: bool
  indicatorPresent :: bool
  hasBody :: bool
  noticePresent :: bool
  noticesShown :: nat

definition showContextInvalidationMessage :: "session \<Rightarrow> session" where
  "showContextInvalidationMessage s =
     (if noticePresent s then s
      else if hasBody s then s\<lparr>noticePresent := True, noticesShown := noticesShown s + 1\<rparr>
      else s)"

definition removeIndicator :: "session \<Rightarrow> session" where
  "removeIndicator s = (if indicatorPresent s then s\<lparr>indicatorPresent := False\<rparr> else s)"

definition disconnectObserver :: "session \<Rightarrow> session" where
  "disconnectObserver s =
     (if mutationObserver s then s\<lparr>observerConnected := False, mutationObserver := False\<rparr> else s)"

definition clearPingInterval :: "session \<Rightarrow> session" where
  "clearPingInterval s =
     (if pingInterval s then s\<lparr>intervalRunning := False, pingInterval := False\<rparr> else s)"

definition handleContextInvalidation :: "session \<Rightarrow> session" where
  "handleContextInvalidation s =
     (if contextInvalidated s then s
      else
        let s1 = s\<lparr>isInitialized := False, messageListenerActive := False,
                    contextInvalidated := True\<rparr>;
            s2 = removeIndicator s1;
            s3 = disconnectObserver s2;
            s4 = clearPingInterval s3
        in showContextInvalidationMessage s4)"

text \<open>
  The notice removes itself ten seconds after it was shown (the \<open>setTimeout\<close> callback of
  \<open>showContextInvalidationMessage\<close>).
\<close>

definition noticeExpired :: "session \<Rightarrow> session" where
  "noticeExpired s = (if noticePresent s then s\<lparr>noticePresent := False\<rparr> else s)"

text \<open>
  What the session sees after a terminal failure was detected: further terminal failures
  (each calls \<open>handleContextInvalidation\<close>) and the expiry of the notice.
\<close>

datatype session_event = TerminalFailure | NoticeExpired

fun sessionStep :: "session \<Rightarrow> session_event \<Rightarrow> session" where
  "sessionStep s TerminalFailure = handleContextInvalidation s"
| "sessionStep s NoticeExpired = noticeExpired s"

definition runSession :: "session \<Rightarrow> session_event list \<Rightarrow> session" where
  "runSession s evs = foldl sessionStep s evs"

subsection \<open>The keep-alive tick\<close>

text \<open>
  \<open>setupKeepAlive\<close> computes \<open>isGreenhouseOrIframe\<close> and the interval once, from the page
  address and from whether the window is embedded (\<open>window !== window.top\<close>); the
  interval callback is \<open>keepAliveTick\<close>. Its environment is what the callback reads at that
  moment: whether \<open>chrome.runtime.id\<close> is available, whether the page is visible, and how
  \<open>sendMessage\<close> ends (\<open>None\<close>: delivered; \<open>Some msg\<close>: it throws an error with that
  message).
\<close>

definition isGreenhouseOrIframe :: "string \<Rightarrow> bool \<Rightarrow> bool" where
  "isGreenhouseOrIframe href embedded = (str_includes href ''greenhouse.io'' \<or> embedded)"

definition pingIntervalMs :: "string \<Rightarrow> bool \<Rightarrow> nat" where
  "pingIntervalMs href embedded = (if isGreenhouseOrIframe href embedded then 20000 else 15000)"

record tick_env =
  runtimeAvailable :: bool
  pageVisible :: bool
  sendError :: "string option"

definition isInvalidationMessage :: "string \<Rightarrow> bool" where
  "isInvalidationMessage msg =
     (msg \<noteq> [] \<and>
      (str_includes msg ''context invalidated'' \<or>
       str_includes msg ''Extension context invalidated'' \<or>
       str_includes msg ''Could not establish connection'' \<or>
       str_includes msg ''The message port closed''))"

text \<open>The result is whether the ping was sent (\<open>sendMessage\<close> was called), and the new state.\<close>

definition keepAliveTick :: "bool \<Rightarrow> tick_env \<Rightarrow> session \<Rightarrow> bool \<times> session" where
  "keepAliveTick greenhouseOrIframe env s =
     (if \<not> isInitialized s \<or> \<not> runtimeAvailable env \<or> contextInvalidated s then (False, s)
      else if greenhouseOrIframe \<and> \<not> pageVisible env then (False, s)
      else
        (case sendError env of
           None \<Rightarrow> (True, s)
         | Some msg \<Rightarrow>
             if isInvalidationMessage msg
             then (True, clearPingInterval (handleContextInvalidation s))
             else (True, s)))"

definition activeSession :: session where
  "activeSession =
     \<lparr>isInitialized = True, messageListenerActive = True, contextInvalidated = False,
      mutationObserver = True, observerConnected = True, pingInterval = True,
      intervalRunning = True, indicatorPresent = True, hasBody = True,
      noticePresent = False, noticesShown = 0\<rparr>"

definition hiddenPage :: tick_env where
  "hiddenPage = \<lparr>runtimeAvailable = True, pageVisible = False, sendError = None\<rparr>"

section \<open>Fuzzy matcher\<close>

text \<open>
  \<open>text.split(/\s+|[_-]+/)\<close>: the separators are the maximal runs of whitespace and the
  maximal runs of underscores and hyphens. A whitespace run followed directly by an
  underscore run gives two separators with an empty token between them, and a separator at
  the start or the end of the text gives an empty first or last token, as in JavaScript.
\<close>

datatype sep_run = NoSep | SpaceRun | DashRun

fun splitFrom :: "sep_run \<Rightarrow> string \<Rightarrow> string \<Rightarrow> string list" where
  "splitFrom k cur [] = [rev cur]"
| "splitFrom k cur (c # cs) =
     (if isSpace c then
        (if k = SpaceRun then splitFrom SpaceRun cur cs else rev cur # splitFrom SpaceRun [] cs)
      else if c = CHR ''_'' \<or> c = CHR ''-'' then
        (if k = DashRun then splitFrom DashRun cur cs else rev cur # splitFrom DashRun [] cs)
      else splitFrom NoSep (c # cur) cs)"

definition splitWords :: "string \<Rightarrow> string list" where
  "splitWords s = splitFrom NoSep [] s"

definition hasWordOverlap :: "string list \<Rightarrow> string list \<Rightarrow> bool" where
  "hasWordOverlap words1 words2 =
     (let set1 = filter (\<lambda>w. length w > 2) words1;
          set2 = filter (\<lambda>w. length w > 2) words2
      in list_ex (\<lambda>word. word \<in> set set1) set2)"

text \<open>
  \<open>levenshteinDistance(str1, str2)\<close> fills a matrix with one row per character of
  \<open>str2\<close> and one column per character of \<open>str1\<close>. \<open>fillRow\<close> computes the cells
  \<open>matrix[j][1..]\<close> of one row from the previous row: \<open>prev\<close> starts at
  \<open>matrix[j-1][i-1]\<close>, and \<open>left\<close> is \<open>matrix[j][i-1]\<close>.
\<close>

fun fillRow :: "'a \<Rightarrow> 'a list \<Rightarrow> nat list \<Rightarrow> nat \<Rightarrow> nat list" where
  "fillRow c (a # as) (diag # up # prev) left =
     (let cost = (if a = c then 0 else 1);
          v = min (min (up + 1) (left + 1)) (diag + cost)
      in v # fillRow c as (up # prev) v)"
| "fillRow c _ _ left = []"

fun levRows :: "'a list \<Rightarrow> 'a list \<Rightarrow> nat \<Rightarrow> nat list \<Rightarrow> nat list" where
  "levRows str1 [] j prev = prev"
| "levRows str1 (c # cs) j prev = levRows str1 cs (j + 1) (j # fillRow c str1 prev j)"

definition levenshteinDistance :: "'a list \<Rightarrow> 'a list \<Rightarrow> nat" where
  "levenshteinDistance str1 str2 = last (levRows str1 str2 1 [0 ..< length str1 + 1])"

text \<open>
  Similarities and confidences are IEEE doubles in the source. They are modelled as exact
  rationals: the only operations are one division of two string lengths and comparisons
  with the constants 0.7, 0.3 and 1.0, and for lengths below \<open>2^49\<close> the rounded
  quotient compares with the rounded constant as the exact quotient does with the exact
  constant.
\<close>

definition calculateSimilarity :: "'a list \<Rightarrow> 'a list \<Rightarrow> rat" where
  "calculateSimilarity str1 str2 =
     (let longer = (if length str1 > length str2 then str1 else str2);
          shorter = (if length str1 > length str2 then str2 else str1)
      in if length longer = 0 then 1
         else (of_nat (length longer) - of_nat (levenshteinDistance longer shorter))
                / of_nat (length longer))"

definition fuzzyMatchField :: "string \<Rightarrow> string list \<Rightarrow> bool" where
  "fuzzyMatchField txt patterns =
     (if list_ex (\<lambda>pattern. str_includes txt pattern) patterns then True
      else if list_ex (\<lambda>pattern. hasWordOverlap (splitWords txt) (splitWords pattern)) patterns
      then True
      else if list_ex (\<lambda>pattern. calculateSimilarity txt pattern > 7 / 10) patterns then True
      else False)"

definition calculateMatchConfidence :: "string \<Rightarrow> string list \<Rightarrow> rat" where
  "calculateMatchConfidence txt patterns =
     fold (\<lambda>pattern maxConfidence.
             if str_includes txt pattern then max maxConfidence 1
             else max maxConfidence (calculateSimilarity txt pattern))
          patterns 0"

subsection \<open>The matchers as the specification words them\<close>







section \<open>Pattern taxonomy and field classifier\<close>

text \<open>
  \<open>fieldPatterns\<close> in the order of the object literal of \<open>identifyField\<close>
  (\<open>Object.entries\<close> enumerates string keys in insertion order).
\<close>

definition fieldPatterns :: "(string \<times> (string \<times> string list) list) list" where
  "fieldPatterns =
   [(''personalInfo'',
     [(''fullName'',
        [''full_name'', ''fullname'', ''name'', ''full-name'', ''candidate_name'',
         ''applicant_name'', ''user_name'', ''your_name'', ''contact_name'']),
      (''firstName'',
        [''first'', ''fname'', ''given'', ''name_first'', ''firstname'', ''givenname'',
         ''forename'', ''first_name'', ''name-first'', ''user_first'', ''personal_first'',
         ''first-name'', ''given_name'', ''given-name'']),
      (''lastName'',
        [''last'', ''lname'', ''family'', ''surname'', ''name_last'', ''lastname'',
         ''familyname'', ''name-last'', ''user_last'', ''personal_last'',
         ''last-name'', ''family_name'', ''family-name'', ''sur_name'']),
      (''email'',
        [''email'', ''mail'', ''e-mail'', ''email_address'', ''emailaddress'',
         ''user_email'', ''contact_email'', ''work_email'']),
      (''phone'',
        [''phone'', ''mobile'', ''cell'', ''tel'', ''telephone'', ''contact'',
         ''phone_number'', ''phonenumber'', ''mobile_number'', ''cell_phone'',
         ''work_phone'', ''home_phone'', ''phone-number'', ''mobile-number'',
         ''contact_number'', ''contact-number'', ''contact_phone'', ''primary_phone'',
         ''phone_primary'', ''tel_number'', ''telephone_number'']),
      (''address'',
        [''address'', ''street'', ''location'', ''address_line'', ''street_address'',
         ''home_address'', ''mailing_address'', ''residence'']),
      (''city'', [''city'', ''town'', ''municipality'', ''locality'']),
      (''state'', [''state'', ''province'', ''region'', ''territory'']),
      (''zipCode'', [''zip'', ''postal'', ''postcode'', ''zip_code'', ''postal_code'']),
      (''country'', [''country'', ''nation'', ''nationality'']),
      (''linkedin'',
        [''linkedin'', ''linked_in'', ''linkedin_url'', ''linkedin_profile'',
         ''linkedin-url'', ''linkedin-profile'', ''linked-in'', ''linkedinurl'',
         ''linkedin_link'', ''linkedin-link'', ''professional_profile'',
         ''social_linkedin'', ''linkedin_username'']),
      (''portfolio'',
        [''portfolio'', ''website'', ''github'', ''personal_site'', ''web'',
         ''homepage'', ''blog'', ''portfolio_url''])]),
    (''experience'',
     [(''summary'',
        [''experience'', ''work_experience'', ''professional_experience'',
         ''background'', ''work_history'', ''career_summary'', ''summary'',
         ''bio'', ''about'', ''description'']),
      (''company'',
        [''company'', ''employer'', ''organization'', ''current_company'',
         ''workplace'', ''firm'', ''corporation'']),
      (''title'',
        [''title'', ''position'', ''role'', ''job_title'', ''current_title'',
         ''current_position'', ''job_role'', ''designation'']),
      (''years'',
        [''years'', ''experience_years'', ''years_experience'', ''tenure'',
         ''duration'', ''work_years'', ''total_experience''])]),
    (''education'',
     [(''degree'',
        [''degree'', ''education'', ''education_level'', ''qualification'',
         ''diploma'', ''certificate'', ''academic_degree'']),
      (''university'',
        [''university'', ''college'', ''school'', ''institution'', ''alma_mater'',
         ''educational_institution'', ''academy'']),
      (''major'',
        [''major'', ''field'', ''study'', ''subject'', ''specialization'',
         ''concentration'', ''discipline'', ''area_of_study'']),
      (''graduationYear'',
        [''graduation'', ''grad_year'', ''completion'', ''year_graduated'',
         ''finish_year'', ''completion_year'']),
      (''gpa'', [''gpa'', ''grade'', ''marks'', ''score'', ''cgpa'', ''average''])]),
    (''skills'',
     [(''technical'',
        [''skills'', ''technical_skills'', ''programming'', ''technologies'',
         ''languages'', ''frameworks'', ''tools'', ''competencies''])]),
    (''other'',
     [(''coverLetter'',
        [''cover'', ''letter'', ''motivation'', ''why'', ''cover_letter'',
         ''personal_statement'', ''objective'', ''interest'']),
      (''salary'',
        [''salary'', ''compensation'', ''expected_salary'', ''pay'',
         ''wage'', ''remuneration'', ''salary_expectation'']),
      (''availability'',
        [''availability'', ''start_date'', ''available'', ''notice'',
         ''when_available'', ''start_time'']),
      (''workAuthorization'',
        [''authorization'', ''visa'', ''eligible'', ''authorized'', ''sponsor'',
         ''work_permit'', ''legal_status'', ''employment_authorization'',
         ''work_authorization'', ''work-authorization'', ''visa_status'',
         ''visa-status'', ''sponsorship'', ''legally_authorized'', ''work_eligible'',
         ''employment_eligible'', ''require_sponsorship'', ''visa_required'',
         ''work_visa'', ''employment_visa'', ''legal_work'', ''us_citizen'']),
      (''willingToRelocate'',
        [''relocate'', ''relocation'', ''move'', ''willing_to_move'',
         ''open_to_relocation'']),
      (''remoteWork'', [''remote'', ''work_from_home'', ''telecommute'', ''wfh'']),
      (''resume'',
        [''resume'', ''cv'', ''curriculum_vitae'', ''resume_upload'', ''cv_upload'',
         ''attach_resume'', ''upload_resume'', ''resume_file'', ''cv_file'',
         ''resume_attachment'', ''cv_attachment'', ''document_upload'', ''file_upload'',
         ''document'', ''attachment'', ''upload'', ''file'', ''resume-upload'',
         ''cv-upload'', ''resume-file'', ''cv-file'', ''upload-resume'', ''upload-cv'',
         ''resumefile'', ''cvfile'', ''resume_doc'', ''cv_doc'', ''documents'']),
      (''coverLetterFile'',
        [''cover_letter_file'', ''cover_letter_upload'', ''letter_upload'',
         ''attach_cover_letter'', ''cover_letter_attachment''])])]"

text \<open>
  The two nested \<open>for\<close> loops of \<open>identifyField\<close> visit the (category, type, patterns)
  triples in this order.
\<close>

definition taxonomyEntries ::
  "(string \<times> (string \<times> string list) list) list \<Rightarrow> (string \<times> string \<times> string list) list" where
  "taxonomyEntries fp =
     concat (map (\<lambda>(category, categoryPatterns).
                    map (\<lambda>(fieldType, patterns). (category, fieldType, patterns))
                        categoryPatterns) fp)"

record classification =
  category :: "string option"
  fieldType :: "string option"
  confidence :: rat

fun classifyWith :: "(string \<times> string \<times> string list) list \<Rightarrow> string \<Rightarrow> classification" where
  "classifyWith [] allText = \<lparr>category = None, fieldType = None, confidence = 0\<rparr>"
| "classifyWith ((cat, ftype, patterns) # rest) allText =
     (if fuzzyMatchField allText patterns
      then \<lparr>category = Some cat, fieldType = Some ftype,
            confidence = calculateMatchConfidence allText patterns\<rparr>
      else classifyWith rest allText)"

text \<open>
  An input control as the detector reads it. \<open>c_key\<close> is the identity of the DOM node.
  \<open>c_name\<close>, \<open>c_id\<close>, \<open>c_placeholder\<close>, \<open>c_title\<close> are the properties of these names
  (empty when unset), \<open>c_ariaLabel\<close> and \<open>c_ariaLabelledBy\<close> the attributes (empty when
  absent). The three label lookups of \<open>getFieldLabel\<close> are given by their results:
  \<open>c_forLabel\<close> is the \<open>textContent\<close> of \<open>document.querySelector('label[for="id"]')\<close>,
  \<open>c_parentLabel\<close> that of the first \<open>label\<close> below the parent element,
  \<open>c_labelledByText\<close> that of the element whose id is the \<open>aria-labelledby\<close> attribute
  (\<open>None\<close> when the lookup finds nothing); an id that makes the first lookup's selector
  invalid (a quote in the id), where the source raises, is outside the model. The rectangle
  is \<open>getBoundingClientRect()\<close>.
  The class defines \<open>getFieldLabel\<close> twice; the later definition is the method in effect
  and the one modelled.
\<close>

record control =
  c_key :: nat
  c_name :: string
  c_id :: string
  c_placeholder :: string
  c_ariaLabel :: string
  c_title :: string
  c_forLabel :: "string option"
  c_parentLabel :: "string option"
  c_ariaLabelledBy :: string
  c_labelledByText :: "string option"
  c_left :: rat
  c_top :: rat
  c_width :: rat
  c_height :: rat

definition getFieldLabel :: "control \<Rightarrow> string" where
  "getFieldLabel input =
     (case (if c_id input \<noteq> [] then c_forLabel input else None) of
        Some t \<Rightarrow> trim t
      | None \<Rightarrow>
          (case c_parentLabel input of
             Some t \<Rightarrow> trim t
           | None \<Rightarrow>
               (case (if c_ariaLabelledBy input \<noteq> [] then c_labelledByText input else None) of
                  Some t \<Rightarrow> trim t
                | None \<Rightarrow> [])))"

definition fieldText :: "control \<Rightarrow> string" where
  "fieldText input =
     toLowerCase
       (toLowerCase (c_name input) @ '' '' @ toLowerCase (c_id input) @ '' '' @
        toLowerCase (c_placeholder input) @ '' '' @ getFieldLabel input @ '' '' @
        toLowerCase (c_ariaLabel input) @ '' '' @ toLowerCase (c_title input))"

definition identifyField :: "control \<Rightarrow> classification" where
  "identifyField input = classifyWith (taxonomyEntries fieldPatterns) (fieldText input)"

text \<open>A bare text input with the given name and no other text signal.\<close>

definition namedInput :: "nat \<Rightarrow> string \<Rightarrow> rat \<Rightarrow> rat \<Rightarrow> control" where
  "namedInput k n x y =
     \<lparr>c_key = k, c_name = n, c_id = [], c_placeholder = [], c_ariaLabel = [], c_title = [],
      c_forLabel = None, c_parentLabel = None, c_ariaLabelledBy = [], c_labelledByText = None,
      c_left = x, c_top = y, c_width = 100, c_height = 20\<rparr>"


section \<open>Form and cluster discovery\<close>

text \<open>
  A structural container (a \<open>form\<close> element, or an element matched by one of the
  \<open>potentialSelectors\<close>): the identity of the node, the properties \<open>innerText\<close>,
  \<open>className\<close>, \<open>id\<close> and \<open>action\<close> (empty when undefined), and the controls that
  \<open>querySelectorAll('input, textarea, select')\<close> finds below it, in document order.
\<close>

record container =
  n_key :: nat
  n_innerText :: string
  n_className :: string
  n_id :: string
  n_action :: string
  n_inputs :: "control list"

text \<open>
  The page as \<open>detectJobForms\<close> queries it: \<open>window.location.href\<close>, the \<open>form\<close>
  elements, the elements matched by the joined \<open>potentialSelectors\<close>, and all controls of
  the document.
\<close>

record page =
  d_href :: string
  d_forms :: "container list"
  d_potentialForms :: "container list"
  d_inputs :: "control list"

definition strongJobIndicators :: "string list" where
  "strongJobIndicators =
     [''application'', ''apply'', ''resume'', ''cv'', ''career'', ''hiring'',
      ''candidate'', ''applicant'', ''job application'', ''employment'']"

definition mediumJobIndicators :: "string list" where
  "mediumJobIndicators =
     [''job'', ''position'', ''work experience'', ''education'', ''contact us'',
      ''get in touch'', ''join us'', ''opportunities'']"

definition jobUrlKeywords :: "string list" where
  "jobUrlKeywords = [''career'', ''job'', ''apply'', ''hiring'', ''employment'', ''opportunities'']"

definition jobFieldKeywords :: "string list" where
  "jobFieldKeywords =
     [''first name'', ''last name'', ''email'', ''phone'', ''resume'', ''cv'',
      ''experience'', ''education'', ''cover letter'', ''salary'', ''skills'',
      ''portfolio'', ''linkedin'', ''github'', ''years'', ''degree'']"

text \<open>\<open>input.name || input.id || input.placeholder || ''\<close>, lower-cased.\<close>

definition fieldNameOf :: "control \<Rightarrow> string" where
  "fieldNameOf input =
     toLowerCase (if c_name input \<noteq> [] then c_name input
                  else if c_id input \<noteq> [] then c_id input
                  else c_placeholder input)"

definition hasJobFormFields :: "container \<Rightarrow> bool" where
  "hasJobFormFields cont =
     (let fieldNames = map fieldNameOf (n_inputs cont)
      in list_ex (\<lambda>keyword. list_ex (\<lambda>fieldName. str_includes fieldName keyword) fieldNames)
           jobFieldKeywords)"

definition calculateJobFieldScore :: "container \<Rightarrow> rat" where
  "calculateJobFieldScore form =
     (let inputs = n_inputs form
      in if length inputs = 0 then 0
         else of_nat (length (filter (\<lambda>input. category (identifyField input) \<noteq> None) inputs))
                / of_nat (length inputs))"

text \<open>\<open>allText\<close> of \<open>isJobApplicationForm\<close>: text, classes, id and action, lower-cased.\<close>

definition formAllText :: "container \<Rightarrow> string" where
  "formAllText form =
     toLowerCase (n_innerText form) @ '' '' @ toLowerCase (n_className form) @ '' '' @
     toLowerCase (n_id form) @ '' '' @ toLowerCase (n_action form)"

definition hasStrongIndicators :: "container \<Rightarrow> bool" where
  "hasStrongIndicators form =
     list_ex (\<lambda>keyword. str_includes (formAllText form) keyword) strongJobIndicators"

definition hasMediumIndicators :: "container \<Rightarrow> bool" where
  "hasMediumIndicators form =
     list_ex (\<lambda>keyword. str_includes (formAllText form) keyword) mediumJobIndicators"

definition hasJobUrl :: "string \<Rightarrow> bool" where
  "hasJobUrl href =
     (let url = toLowerCase href in list_ex (\<lambda>keyword. str_includes url keyword) jobUrlKeywords)"

text \<open>
  The running sum \<open>confidence\<close> of \<open>isJobApplicationForm\<close>. The source adds doubles; the
  sums are modelled as exact rationals. The comparison with 0.3 is the same in both: the
  only sum equal to 0.3 is \<open>0 + 0.3\<close>, which is exact in doubles, and every other sum
  differs from 0.3 by at least 0.1.
\<close>

definition formConfidence :: "string \<Rightarrow> container \<Rightarrow> rat" where
  "formConfidence href form =
     (let confidence = 0;
          confidence = (if hasStrongIndicators form then confidence + 6 / 10 else confidence);
          confidence = (if hasMediumIndicators form then confidence + 2 / 10 else confidence);
          confidence = (if hasJobUrl href then confidence + 2 / 10 else confidence);
          confidence = (if hasJobFormFields form then confidence + 3 / 10 else confidence);
          confidence = (if calculateJobFieldScore form > 5 / 10 then confidence + 2 / 10
                        else confidence)
      in confidence)"

definition isJobApplicationForm :: "string \<Rightarrow> container \<Rightarrow> bool" where
  "isJobApplicationForm href form = (formConfidence href form > 3 / 10)"

subsection \<open>Spatial clusters\<close>

text \<open>
  \<open>findNearbyInputs\<close>: the other controls of the document whose centre is at most
  \<open>radius\<close> away from the centre of \<open>element\<close>. The source compares
  \<open>Math.sqrt(dx^2 + dy^2)\<close> with the radius; the model compares the squares, which is the
  same for a non-negative radius.
\<close>

definition centerX :: "control \<Rightarrow> rat" where
  "centerX el = c_left el + c_width el / 2"

definition centerY :: "control \<Rightarrow> rat" where
  "centerY el = c_top el + c_height el / 2"

definition withinRadius :: "control \<Rightarrow> control \<Rightarrow> rat \<Rightarrow> bool" where
  "withinRadius a b radius =
     ((centerX a - centerX b) * (centerX a - centerX b) +
      (centerY a - centerY b) * (centerY a - centerY b) \<le> radius * radius)"

definition findNearbyInputs :: "control list \<Rightarrow> control \<Rightarrow> rat \<Rightarrow> control list" where
  "findNearbyInputs allInputs element radius =
     filter (\<lambda>input. input \<noteq> element \<and> withinRadius element input radius) allInputs"

text \<open>
  The body of the \<open>nearby.forEach\<close> of \<open>findInputCluster\<close>, on the triple
  (visited, cluster, queue).
\<close>

fun visit ::
  "control \<Rightarrow> control set \<times> control list \<times> control list
     \<Rightarrow> control set \<times> control list \<times> control list" where
  "visit input (visited, cluster, queue) =
     (if input \<notin> visited then (insert input visited, cluster @ [input], queue @ [input])
      else (visited, cluster, queue))"

text \<open>The \<open>while (queue.length > 0)\<close> loop of \<open>findInputCluster\<close>, radius 200.\<close>

function bfs ::
  "control list \<Rightarrow> control set \<Rightarrow> control list \<Rightarrow> control list \<Rightarrow> control list" where
  "bfs allInputs visited cluster [] = cluster"
| "bfs allInputs visited cluster (current # queue) =
     (case fold visit (findNearbyInputs allInputs current 200) (visited, cluster, queue) of
        (visited', cluster', queue') \<Rightarrow> bfs allInputs visited' cluster' queue')"
  by pat_completeness auto
termination
proof (relation "measure (\<lambda>(allInputs, visited, cluster, queue).
                            card (set allInputs - visited) + length queue)", goal_cases)
  case 1
  show ?case by simp
next
  case (2 allInputs visited cluster current queue visited' rest cluster' queue')
  have balance: "card (set allInputs - v') + length q' = card (set allInputs - v) + length q"
    if "set nearby \<subseteq> set allInputs" and "fold visit nearby (v, c, q) = (v', c', q')"
    for nearby v c q v' c' q'
    using that
  proof (induction nearby arbitrary: v c q)
    case Nil
    then show ?case by simp
  next
    case (Cons n nearby)
    show ?case
    proof (cases "n \<in> v")
      case True
      with Cons show ?thesis by simp
    next
      case False
      have sub: "set nearby \<subseteq> set allInputs" and n: "n \<in> set allInputs"
        using Cons.prems(1) by auto
      have run: "fold visit nearby (insert n v, c @ [n], q @ [n]) = (v', c', q')"
        using Cons.prems(2) False by simp
      have "n \<in> set allInputs - v" using n False by simp
      then have "card (set allInputs - v) = Suc (card (set allInputs - insert n v))"
        by (metis Diff_insert card.remove finite_Diff finite_set)
      with Cons.IH [OF sub run] show ?thesis by simp
    qed
  qed
  have run: "fold visit (findNearbyInputs allInputs current 200) (visited, cluster, queue)
               = (visited', cluster', queue')"
    using 2 by metis
  have "set (findNearbyInputs allInputs current 200) \<subseteq> set allInputs"
    by (auto simp add: findNearbyInputs_def)
  from balance [OF this run] show ?case by simp
qed

definition findInputCluster :: "control list \<Rightarrow> control \<Rightarrow> control list" where
  "findInputCluster allInputs startInput = bfs allInputs {startInput} [startInput] [startInput]"


text \<open>
  \<open>Math.ceil(inputs.length * 0.6)\<close> is modelled exactly; the rounded double product has
  the same ceiling, since \<open>0.6\<close> rounds down and the product is never within rounding
  distance above an integer.
\<close>

definition isJobInputCluster :: "control list \<Rightarrow> bool" where
  "isJobInputCluster inputs =
     (let fieldTypes = map identifyField inputs;
          validFields = filter (\<lambda>field. category field \<noteq> None) fieldTypes
      in int (length validFields) \<ge> \<lceil>(of_nat (length inputs) :: rat) * (6 / 10)\<rceil>)"

text \<open>
  An entry of \<open>this.forms\<close>: a container element, or a virtual form made of a cluster.
  The field map \<open>this.formFields\<close>, which \<open>mapFormFields\<close> and \<open>mapVirtualFormFields\<close>
  fill next to it, is not read by the detection and is left out; filling it is taken not to
  raise.
\<close>

datatype form_group = RealForm container | VirtualForm "control list"

definition clusterStep ::
  "control list \<Rightarrow> control \<Rightarrow> form_group list \<times> control set \<Rightarrow> form_group list \<times> control set" where
  "clusterStep allInputs input st =
     (case st of (forms, processedInputs) \<Rightarrow>
        if input \<in> processedInputs then (forms, processedInputs)
        else
          let cluster = findInputCluster allInputs input
          in if length cluster \<ge> 3 \<and> isJobInputCluster cluster
             then (forms @ [VirtualForm cluster], processedInputs \<union> set cluster)
             else (forms, processedInputs))"

definition detectInputClusters :: "page \<Rightarrow> form_group list \<Rightarrow> form_group list" where
  "detectInputClusters pg forms = fst (fold (clusterStep (d_inputs pg)) (d_inputs pg) (forms, {}))"

definition addJobForm :: "string \<Rightarrow> container \<Rightarrow> form_group list \<Rightarrow> form_group list" where
  "addJobForm href form forms =
     (if isJobApplicationForm href form then forms @ [RealForm form] else forms)"

definition addContainer :: "container \<Rightarrow> form_group list \<Rightarrow> form_group list" where
  "addContainer cont forms =
     (if hasJobFormFields cont \<and> RealForm cont \<notin> set forms then forms @ [RealForm cont]
      else forms)"

definition detectJobForms :: "page \<Rightarrow> form_group list" where
  "detectJobForms pg =
     (let forms = fold (addJobForm (d_href pg)) (d_forms pg) [];
          forms = fold addContainer (d_potentialForms pg) forms
      in detectInputClusters pg forms)"

text \<open>The controls of a group.\<close>

fun groupInputs :: "form_group \<Rightarrow> control list" where
  "groupInputs (RealForm cont) = n_inputs cont"
| "groupInputs (VirtualForm inputs) = inputs"

subsection \<open>Example pages\<close>



text \<open>A job application form with three inputs placed 40 px apart.\<close>

definition applicationInputs :: "control list" where
  "applicationInputs =
     [namedInput 0 ''first_name'' 0 0, namedInput 1 ''last_name'' 0 40,
      namedInput 2 ''user_name'' 0 80]"

definition applicationForm :: container where
  "applicationForm =
     \<lparr>n_key = 10, n_innerText = ''Job application'', n_className = [], n_id = [],
      n_action = ''https://example.com/submit'', n_inputs = applicationInputs\<rparr>"

definition applicationPage :: page where
  "applicationPage =
     \<lparr>d_href = ''https://example.com/'', d_forms = [applicationForm], d_potentialForms = [],
      d_inputs = applicationInputs\<rparr>"

section \<open>Select writer\<close>




text \<open>\<open>value.split(' ')\<close>: one more part than there are space characters.\<close>

fun splitOnSpace :: "string \<Rightarrow> string \<Rightarrow> string list" where
  "splitOnSpace cur [] = [rev cur]"
| "splitOnSpace cur (c # cs) =
     (if c = CHR '' '' then rev cur # splitOnSpace [] cs else splitOnSpace (c # cur) cs)"



















section \<open>Selector resolver\<close>

text \<open>
  \<open>CSS.escape\<close> as the CSSOM serialisation of an identifier, on 8-bit characters: NUL
  becomes U+FFFD (three bytes in UTF-8), control characters and a leading digit (or a digit
  after a leading hyphen) become a hexadecimal escape followed by a space, a lone hyphen is
  escaped, letters, digits, hyphen, underscore and bytes from 0x80 stay, and every other
  character gets a backslash.
\<close>

definition isDigit :: "char \<Rightarrow> bool" where
  "isDigit c = (c \<in> set ''0123456789'')"

definition hexDigit :: "nat \<Rightarrow> char" where
  "hexDigit n = ''0123456789abcdef'' ! (n mod 16)"

definition hexEscape :: "char \<Rightarrow> string" where
  "hexEscape c =
     (let n = (of_char c :: nat)
      in [CHR 0x5C] @ (if n < 16 then [hexDigit n] else [hexDigit (n div 16), hexDigit n]) @ '' '')"

fun escapeFrom :: "nat \<Rightarrow> char \<Rightarrow> nat \<Rightarrow> string \<Rightarrow> string" where
  "escapeFrom i first len [] = []"
| "escapeFrom i first len (c # cs) =
     (let n = (of_char c :: nat);
          out =
            (if n = 0 then [CHR 0xEF, CHR 0xBF, CHR 0xBD]
             else if (1 \<le> n \<and> n \<le> 31) \<or> n = 127 then hexEscape c
             else if i = 0 \<and> isDigit c then hexEscape c
             else if i = 1 \<and> isDigit c \<and> first = CHR ''-'' then hexEscape c
             else if i = 0 \<and> c = CHR ''-'' \<and> len = 1 then [CHR 0x5C, c]
             else if n \<ge> 128 \<or> c = CHR ''-'' \<or> c = CHR ''_'' \<or> isDigit c \<or> isLetter c then [c]
             else [CHR 0x5C, c])
      in out @ escapeFrom (i + 1) first len cs)"

definition cssEscape :: "string \<Rightarrow> string" where
  "cssEscape s = (case s of [] \<Rightarrow> [] | c # _ \<Rightarrow> escapeFrom 0 c (length s) s)"

text \<open>\<open>/[\[\]{}:()\s]/.test(s)\<close>\<close>

definition hasSelectorMeta :: "string \<Rightarrow> bool" where
  "hasSelectorMeta s = list_ex (\<lambda>c. c \<in> set ''[]{}:()'' \<or> isSpace c) s"

definition isValidCSSSelector :: "string \<Rightarrow> bool" where
  "isValidCSSSelector ident =
     (\<not> (case ident of [] \<Rightarrow> False | c # _ \<Rightarrow> isDigit c) \<and> \<not> hasSelectorMeta ident)"

definition isValidCSSClass :: "string \<Rightarrow> bool" where
  "isValidCSSClass className = (length className > 0 \<and> \<not> hasSelectorMeta className)"

text \<open>
  One node of the chain that \<open>generateRobustSelector\<close> climbs: tag name, id, class
  attribute, and the position of the node among the children of its parent (\<open>None\<close>
  when \<open>indexOf\<close> gives -1).
\<close>

record dom_node =
  nd_tagName :: string
  nd_id :: string
  nd_className :: string
  nd_childIndex :: "nat option"

text \<open>
  The element whose selector is resolved. \<open>e_attributes\<close> are its attributes in order;
  \<open>e_chain\<close> is the element followed by its \<open>parentElement\<close>s, up to but excluding
  \<open>body\<close> and the document element.
\<close>

record sel_element =
  e_tagName :: string
  e_id :: string
  e_name :: string
  e_attributes :: "(string \<times> string) list"
  e_className :: string
  e_type :: string
  e_placeholder :: string
  e_chain :: "dom_node list"

text \<open>Decimal digits of \<open>index + 1\<close> in \<open>:nth-child(...)\<close>.\<close>

fun digitsOf :: "nat \<Rightarrow> nat \<Rightarrow> string" where
  "digitsOf 0 n = []"
| "digitsOf (Suc fuel) n =
     (if n < 10 then [''0123456789'' ! n]
      else digitsOf fuel (n div 10) @ [''0123456789'' ! (n mod 10)])"

definition showNat :: "nat \<Rightarrow> string" where
  "showNat n = digitsOf (Suc n) n"

fun joinWith :: "string \<Rightarrow> string list \<Rightarrow> string" where
  "joinWith sep [] = []"
| "joinWith sep [x] = x"
| "joinWith sep (x # y # ys) = x @ sep @ joinWith sep (y # ys)"

definition escapedClasses :: "string \<Rightarrow> string list" where
  "escapedClasses className =
     map cssEscape (filter (\<lambda>c. trim c \<noteq> [] \<and> isValidCSSClass c) (splitOnSpace [] className))"

definition nodeSelector :: "dom_node \<Rightarrow> string" where
  "nodeSelector current =
     (let selector = toLowerCase (nd_tagName current)
      in if nd_id current \<noteq> [] \<and> isValidCSSSelector (nd_id current)
         then selector @ ''#'' @ cssEscape (nd_id current)
         else if nd_className current \<noteq> []
         then (let classes = escapedClasses (nd_className current)
               in if length classes > 0 then selector @ ''.'' @ joinWith ''.'' (take 2 classes)
                  else selector)
         else (case nd_childIndex current of
                 Some index \<Rightarrow> selector @ '':nth-child('' @ showNat (index + 1) @ '')''
               | None \<Rightarrow> selector))"

text \<open>
  The loop stops after the sixth segment (\<open>if (path.length > 5) break\<close>); each segment is
  put in front of the path.
\<close>

definition generateRobustSelector :: "sel_element \<Rightarrow> string" where
  "generateRobustSelector element =
     joinWith '' > '' (rev (map nodeSelector (take 6 (e_chain element))))"

text \<open>
  \<open>document.querySelectorAll(selector).length\<close> is the browser's: the resolver takes it as
  a parameter \<open>qsa\<close>, \<open>None\<close> standing for the \<open>SyntaxError\<close> thrown on an invalid
  selector. Steps 1 and 4 catch that error and go on; steps 2, 3 and 5 do not, so there the
  error leaves \<open>getElementSelector\<close>.
\<close>

datatype selector_error = SyntaxError string

definition dq :: string where
  "dq = [CHR 0x22]"

definition attrSelector :: "string \<Rightarrow> string \<Rightarrow> string" where
  "attrSelector name v = ''['' @ name @ ''='' @ dq @ v @ dq @ '']''"

fun tryDataAttributes ::
  "(string \<Rightarrow> nat option) \<Rightarrow> (string \<times> string) list \<Rightarrow> selector_error + string option" where
  "tryDataAttributes qsa [] = Inr None"
| "tryDataAttributes qsa ((name, v) # attrs) =
     (if prefix ''data-'' name then
        (case qsa (attrSelector name v) of
           None \<Rightarrow> Inl (SyntaxError (attrSelector name v))
         | Some n \<Rightarrow> if n = 1 then Inr (Some (attrSelector name v)) else tryDataAttributes qsa attrs)
      else tryDataAttributes qsa attrs)"

definition stepTypePlaceholder ::
  "(string \<Rightarrow> nat option) \<Rightarrow> sel_element \<Rightarrow> selector_error + string" where
  "stepTypePlaceholder qsa element =
     (if e_type element \<noteq> [] \<and> e_placeholder element \<noteq> [] then
        (let selector = toLowerCase (e_tagName element) @ attrSelector ''type'' (e_type element)
                          @ attrSelector ''placeholder'' (e_placeholder element)
         in case qsa selector of
              None \<Rightarrow> Inl (SyntaxError selector)
            | Some n \<Rightarrow> if n = 1 then Inr selector else Inr (generateRobustSelector element))
      else Inr (generateRobustSelector element))"

definition stepClasses ::
  "(string \<Rightarrow> nat option) \<Rightarrow> sel_element \<Rightarrow> selector_error + string" where
  "stepClasses qsa element =
     (if e_className element \<noteq> [] \<and> length (escapedClasses (e_className element)) > 0
        \<and> qsa (''.'' @ joinWith ''.'' (escapedClasses (e_className element))) = Some 1
      then Inr (''.'' @ joinWith ''.'' (escapedClasses (e_className element)))
      else stepTypePlaceholder qsa element)"

definition stepDataAttributes ::
  "(string \<Rightarrow> nat option) \<Rightarrow> sel_element \<Rightarrow> selector_error + string" where
  "stepDataAttributes qsa element =
     (case tryDataAttributes qsa (e_attributes element) of
        Inl err \<Rightarrow> Inl err
      | Inr (Some selector) \<Rightarrow> Inr selector
      | Inr None \<Rightarrow> stepClasses qsa element)"

definition stepName ::
  "(string \<Rightarrow> nat option) \<Rightarrow> sel_element \<Rightarrow> selector_error + string" where
  "stepName qsa element =
     (if e_name element \<noteq> [] then
        (case qsa (attrSelector ''name'' (e_name element)) of
           None \<Rightarrow> Inl (SyntaxError (attrSelector ''name'' (e_name element)))
         | Some n \<Rightarrow>
             if n = 1 then Inr (attrSelector ''name'' (e_name element))
             else stepDataAttributes qsa element)
      else stepDataAttributes qsa element)"

definition getElementSelector ::
  "(string \<Rightarrow> nat option) \<Rightarrow> sel_element \<Rightarrow> selector_error + string" where
  "getElementSelector qsa element =
     (if e_id element \<noteq> [] \<and> isValidCSSSelector (e_id element)
        \<and> qsa (''#'' @ cssEscape (e_id element)) = Some 1
      then Inr (''#'' @ cssEscape (e_id element))
      else stepName qsa element)"

subsection \<open>A selector engine for lists of quoted attribute selectors\<close>

text \<open>
  What a standards-conforming \<open>querySelectorAll\<close> does on the selectors of steps 2 and 3
  when the attribute value holds no backslash and no line break: a comma-separated list of
  \<open>[name="value"]\<close> selects the elements that carry one of the attributes with exactly
  that value; a quote inside the value ends the string. Any other text is outside this
  fragment and is answered with \<open>None\<close>.
\<close>

definition isAttrNameChar :: "char \<Rightarrow> bool" where
  "isAttrNameChar c = (isLetter c \<or> isDigit c \<or> c = CHR ''-'' \<or> c = CHR ''_'')"

definition parseAttrSelector :: "string \<Rightarrow> ((string \<times> string) \<times> string) option" where
  "parseAttrSelector s =
     (case s of
        c # r \<Rightarrow>
          if c = CHR ''['' then
            (let name = takeWhile isAttrNameChar r; r1 = dropWhile isAttrNameChar r
             in case r1 of
                  e # q # r2 \<Rightarrow>
                    if name \<noteq> [] \<and> e = CHR ''='' \<and> [q] = dq then
                      (let v = takeWhile (\<lambda>c. [c] \<noteq> dq) r2; r3 = dropWhile (\<lambda>c. [c] \<noteq> dq) r2
                       in case r3 of
                            q' # b # r4 \<Rightarrow>
                              if b = CHR '']'' \<and> \<not> list_ex (\<lambda>c. c = CHR 0x5C \<or> c = CHR 0x0A) v
                              then Some ((name, v), r4) else None
                          | _ \<Rightarrow> None)
                    else None
                | _ \<Rightarrow> None)
          else None
      | [] \<Rightarrow> None)"

fun parseAttrList :: "nat \<Rightarrow> string \<Rightarrow> (string \<times> string) list option" where
  "parseAttrList 0 s = None"
| "parseAttrList (Suc fuel) s =
     (case parseAttrSelector s of
        None \<Rightarrow> None
      | Some (sel, rest) \<Rightarrow>
          (case rest of
             [] \<Rightarrow> Some [sel]
           | c # rest' \<Rightarrow>
               if c = CHR '','' then
                 (case parseAttrList fuel rest' of None \<Rightarrow> None | Some sels \<Rightarrow> Some (sel # sels))
               else None))"

definition matchesAttr :: "(string \<times> string) list \<Rightarrow> string \<times> string \<Rightarrow> bool" where
  "matchesAttr attrs sel = (map_of attrs (fst sel) = Some (snd sel))"

definition queryAttrSelectors ::
  "(string \<times> string) list list \<Rightarrow> string \<Rightarrow> (string \<times> string) list list option" where
  "queryAttrSelectors doc selector =
     (case parseAttrList (length selector) selector of
        None \<Rightarrow> None
      | Some sels \<Rightarrow> Some (filter (\<lambda>attrs. list_ex (matchesAttr attrs) sels) doc))"

definition countAttrSelectors :: "(string \<times> string) list list \<Rightarrow> string \<Rightarrow> nat option" where
  "countAttrSelectors doc selector = map_option length (queryAttrSelectors doc selector)"

text \<open>
  A document with two inputs: one whose \<open>name\<close> attribute is \<open>a"],[name="b\<close>, and one
  named \<open>b\<close>.
\<close>

definition hostileName :: string where
  "hostileName = ''a'' @ dq @ ''],[name='' @ dq @ ''b''"

definition hostileElement :: sel_element where
  "hostileElement =
     \<lparr>e_tagName = ''INPUT'', e_id = [], e_name = hostileName,
      e_attributes = [(''type'', ''text''), (''name'', hostileName)], e_className = [],
      e_type = ''text'', e_placeholder = [],
      e_chain = [\<lparr>nd_tagName = ''INPUT'', nd_id = [], nd_className = [], nd_childIndex = Some 0\<rparr>]\<rparr>"

definition hostileDocument :: "(string \<times> string) list list" where
  "hostileDocument =
     [[(''type'', ''text''), (''name'', hostileName)], [(''type'', ''text''), (''name'', ''b'')]]"

section \<open>Verified properties\<close>

subsection \<open>Radio writer\<close>



subsection \<open>Context invalidation\<close>

lemmas invalidation_defs =
  handleContextInvalidation_def removeIndicator_def disconnectObserver_def
  clearPingInterval_def showContextInvalidationMessage_def

lemma handleContextInvalidation_noop:
  "contextInvalidated s \<Longrightarrow> handleContextInvalidation s = s"
  by (simp add: handleContextInvalidation_def)

lemma handleContextInvalidation_marks:
  "contextInvalidated (handleContextInvalidation s)"
  by (simp add: invalidation_defs Let_def)

lemma handleContextInvalidation_funpow:
  "contextInvalidated s \<Longrightarrow> (handleContextInvalidation ^^ n) s = s"
  by (induction n) (simp_all add: handleContextInvalidation_noop)

lemma sessionStep_invalidated:
  assumes "contextInvalidated s"
  shows "contextInvalidated (sessionStep s e) \<and>
         (sessionStep s e)\<lparr>noticePresent := b\<rparr> = s\<lparr>noticePresent := b\<rparr>"
  using assms by (cases e) (simp_all add: handleContextInvalidation_noop noticeExpired_def)

lemma runSession_invalidated:
  "contextInvalidated s \<Longrightarrow>
     (runSession s evs)\<lparr>noticePresent := b\<rparr> = s\<lparr>noticePresent := b\<rparr>"
proof (induction evs arbitrary: s)
  case Nil
  then show ?case by (simp add: runSession_def)
next
  case (Cons e evs)
  have step: "contextInvalidated (sessionStep s e)"
    and same: "(sessionStep s e)\<lparr>noticePresent := b\<rparr> = s\<lparr>noticePresent := b\<rparr>"
    using sessionStep_invalidated [OF Cons.prems] by blast+
  have "(runSession s (e # evs))\<lparr>noticePresent := b\<rparr>
          = (runSession (sessionStep s e) evs)\<lparr>noticePresent := b\<rparr>"
    by (simp add: runSession_def)
  also have "\<dots> = (sessionStep s e)\<lparr>noticePresent := b\<rparr>"
    by (rule Cons.IH [OF step])
  finally show ?case using same by simp
qed

lemma tick_none: "contextInvalidated s \<Longrightarrow> keepAliveTick g env s = (False, s)"
  by (simp add: keepAliveTick_def)

text \<open>
  C8. The state Invalidated is entered exactly once per page session. The first terminal
  failure (a call of \<open>handleContextInvalidation\<close> in a state that is not yet invalidated)
  marks the session invalidated and uninitialised, clears the ping interval, disconnects the
  mutation observer and shows the notice (one more notice exactly when the document has a
  body and no notice is on display; none otherwise). Every later attempt is a no-op: a
  second call returns the state unchanged, any number of calls equals one call, no later
  sequence of failures and notice expiries shows another notice or restores a handle, and no
  keep-alive tick sends a ping any more.
\<close>

theorem handleContextInvalidation_once:
  assumes "\<not> contextInvalidated s"
  defines "s' \<equiv> handleContextInvalidation s"
  shows "contextInvalidated s' \<and> \<not> isInitialized s' \<and>
         \<not> pingInterval s' \<and> (pingInterval s \<longrightarrow> \<not> intervalRunning s') \<and>
         \<not> mutationObserver s' \<and> (mutationObserver s \<longrightarrow> \<not> observerConnected s') \<and>
         noticePresent s' = (noticePresent s \<or> hasBody s) \<and>
         noticesShown s' = noticesShown s + (if hasBody s \<and> \<not> noticePresent s then 1 else 0) \<and>
         handleContextInvalidation s' = s' \<and>
         (\<forall>n. (handleContextInvalidation ^^ Suc n) s = s') \<and>
         (\<forall>evs. contextInvalidated (runSession s' evs) \<and>
                noticesShown (runSession s' evs) = noticesShown s' \<and>
                isInitialized (runSession s' evs) = isInitialized s' \<and>
                pingInterval (runSession s' evs) = pingInterval s' \<and>
                intervalRunning (runSession s' evs) = intervalRunning s' \<and>
                mutationObserver (runSession s' evs) = mutationObserver s' \<and>
                observerConnected (runSession s' evs) = observerConnected s') \<and>
         (\<forall>g env. keepAliveTick g env s' = (False, s'))"
proof -
  have inv: "contextInvalidated s'"
    unfolding s'_def by (rule handleContextInvalidation_marks)
  have fields: "\<not> isInitialized s' \<and>
         \<not> pingInterval s' \<and> (pingInterval s \<longrightarrow> \<not> intervalRunning s') \<and>
         \<not> mutationObserver s' \<and> (mutationObserver s \<longrightarrow> \<not> observerConnected s') \<and>
         noticePresent s' = (noticePresent s \<or> hasBody s) \<and>
         noticesShown s' = noticesShown s + (if hasBody s \<and> \<not> noticePresent s then 1 else 0)"
    unfolding s'_def using assms(1) by (simp add: invalidation_defs Let_def)
  have again: "handleContextInvalidation s' = s'"
    using inv by (rule handleContextInvalidation_noop)
  have pow: "(handleContextInvalidation ^^ Suc n) s = s'" for n
    using handleContextInvalidation_funpow [OF inv, of n]
    by (simp add: funpow_swap1 s'_def)
  have run: "contextInvalidated (runSession s' evs) \<and>
                noticesShown (runSession s' evs) = noticesShown s' \<and>
                isInitialized (runSession s' evs) = isInitialized s' \<and>
                pingInterval (runSession s' evs) = pingInterval s' \<and>
                intervalRunning (runSession s' evs) = intervalRunning s' \<and>
                mutationObserver (runSession s' evs) = mutationObserver s' \<and>
                observerConnected (runSession s' evs) = observerConnected s'" for evs
  proof -
    have eq: "(runSession s' evs)\<lparr>noticePresent := True\<rparr> = s'\<lparr>noticePresent := True\<rparr>"
      using inv by (rule runSession_invalidated)
    have "contextInvalidated (runSession s' evs) = contextInvalidated s'"
      using arg_cong [OF eq, of contextInvalidated] by simp
    moreover have "noticesShown (runSession s' evs) = noticesShown s'"
      using arg_cong [OF eq, of noticesShown] by simp
    moreover have "isInitialized (runSession s' evs) = isInitialized s'"
      using arg_cong [OF eq, of isInitialized] by simp
    moreover have "pingInterval (runSession s' evs) = pingInterval s'"
      using arg_cong [OF eq, of pingInterval] by simp
    moreover have "intervalRunning (runSession s' evs) = intervalRunning s'"
      using arg_cong [OF eq, of intervalRunning] by simp
    moreover have "mutationObserver (runSession s' evs) = mutationObserver s'"
      using arg_cong [OF eq, of mutationObserver] by simp
    moreover have "observerConnected (runSession s' evs) = observerConnected s'"
      using arg_cong [OF eq, of observerConnected] by simp
    ultimately show ?thesis using inv by simp
  qed
  from inv fields again pow run tick_none show ?thesis by blast
qed

theorem handleContextInvalidation_once_witness:
  "\<not> contextInvalidated activeSession \<and>
   contextInvalidated (handleContextInvalidation activeSession) \<and>
   pingInterval activeSession \<and> \<not> intervalRunning (handleContextInvalidation activeSession) \<and>
   mutationObserver activeSession \<and> \<not> observerConnected (handleContextInvalidation activeSession) \<and>
   noticesShown (handleContextInvalidation activeSession) = 1 \<and>
   handleContextInvalidation (handleContextInvalidation activeSession)
     = handleContextInvalidation activeSession \<and>
   noticesShown (runSession activeSession
      [TerminalFailure, TerminalFailure, NoticeExpired, TerminalFailure]) = 1"
proof -
  have a: "\<not> contextInvalidated activeSession"
    by (simp add: activeSession_def)
  have b: "noticesShown activeSession = 0 \<and> hasBody activeSession \<and> \<not> noticePresent activeSession"
    by (simp add: activeSession_def)
  have b': "pingInterval activeSession \<and> mutationObserver activeSession"
    by (simp add: activeSession_def)
  have c: "runSession activeSession [TerminalFailure, TerminalFailure, NoticeExpired, TerminalFailure]
             = runSession (handleContextInvalidation activeSession)
                 [TerminalFailure, NoticeExpired, TerminalFailure]"
    by (simp add: runSession_def)
  note h = handleContextInvalidation_once [OF a]
  from h have d: "noticesShown (runSession (handleContextInvalidation activeSession)
                      [TerminalFailure, NoticeExpired, TerminalFailure])
                  = noticesShown (handleContextInvalidation activeSession)"
    by blast
  from h b have e: "noticesShown (handleContextInvalidation activeSession) = 1"
    by simp
  from h have f: "contextInvalidated (handleContextInvalidation activeSession) \<and>
      handleContextInvalidation (handleContextInvalidation activeSession)
     = handleContextInvalidation activeSession"
    by blast
  from h b' have g: "\<not> intervalRunning (handleContextInvalidation activeSession) \<and>
      \<not> observerConnected (handleContextInvalidation activeSession)"
    by blast
  from a b' c d e f g show ?thesis by simp
qed

subsection \<open>Keep-alive tick and page visibility\<close>

text \<open>
  C9 as stated (the ping is skipped on every tick while the page is not visible, on
  ordinary pages too) does not hold: on an ordinary top-level page the tick sends the ping
  although the page is hidden.
\<close>

theorem keepAliveTick_hidden_ordinary_counterexample:
  "\<not> pageVisible hiddenPage \<and>
   \<not> isGreenhouseOrIframe ''https://example.com/careers'' False \<and>
   fst (keepAliveTick (isGreenhouseOrIframe ''https://example.com/careers'' False)
          hiddenPage activeSession)"
  by (simp add: keepAliveTick_def isGreenhouseOrIframe_def hiddenPage_def activeSession_def)

text \<open>
  C9, amended. While the page is not visible, the tick skips the ping (and leaves the state
  unchanged) when the page is a greenhouse.io page or an embedded frame; on any other page
  the visibility is not consulted: an initialised, not invalidated session whose runtime is
  available sends the ping whether the page is visible or not.
\<close>

theorem keepAliveTick_visibility:
  "(isGreenhouseOrIframe href embedded \<and> \<not> pageVisible env \<longrightarrow>
      keepAliveTick (isGreenhouseOrIframe href embedded) env s = (False, s)) \<and>
   (\<not> isGreenhouseOrIframe href embedded \<and> isInitialized s \<and> runtimeAvailable env \<and>
    \<not> contextInvalidated s \<longrightarrow>
      fst (keepAliveTick (isGreenhouseOrIframe href embedded) env s))"
  by (simp add: keepAliveTick_def split: option.splits)

theorem keepAliveTick_visibility_witness:
  "isGreenhouseOrIframe ''https://boards.greenhouse.io/acme'' False \<and>
   \<not> pageVisible hiddenPage \<and>
   keepAliveTick (isGreenhouseOrIframe ''https://boards.greenhouse.io/acme'' False)
     hiddenPage activeSession = (False, activeSession) \<and>
   \<not> isGreenhouseOrIframe ''https://example.com/careers'' False \<and>
   isInitialized activeSession \<and> runtimeAvailable hiddenPage \<and>
   \<not> contextInvalidated activeSession \<and>
   fst (keepAliveTick (isGreenhouseOrIframe ''https://example.com/careers'' False)
          hiddenPage activeSession)"
proof -
  have a: "isGreenhouseOrIframe ''https://boards.greenhouse.io/acme'' False"
    by (simp add: isGreenhouseOrIframe_def)
  have b: "\<not> isGreenhouseOrIframe ''https://example.com/careers'' False"
    by (simp add: isGreenhouseOrIframe_def)
  have c: "\<not> pageVisible hiddenPage \<and> runtimeAvailable hiddenPage"
    by (simp add: hiddenPage_def)
  have d: "isInitialized activeSession \<and> \<not> contextInvalidated activeSession"
    by (simp add: activeSession_def)
  from a b c d
    keepAliveTick_visibility [of "''https://boards.greenhouse.io/acme''" False hiddenPage activeSession]
    keepAliveTick_visibility [of "''https://example.com/careers''" False hiddenPage activeSession]
  show ?thesis by blast
qed

subsection \<open>Fuzzy matcher: the matrix computes the edit distance\<close>






















subsection \<open>Field classifier\<close>


text \<open>
  C1 (scenario A). A field named \<open>email\<close> is classified as personalInfo / email with
  confidence 1.0. A field named \<open>first_name\<close> is classified as personalInfo / fullName with
  confidence 1.0, not as firstName: the fullName list, which comes first in the taxonomy,
  holds the pattern \<open>name\<close>, a substring of \<open>first_name\<close>.
\<close>

theorem identifyField_scenarioA:
  "identifyField (namedInput 0 ''first_name'' 0 0) =
     \<lparr>category = Some ''personalInfo'', fieldType = Some ''fullName'', confidence = 1\<rparr> \<and>
   identifyField (namedInput 1 ''email'' 0 0) =
     \<lparr>category = Some ''personalInfo'', fieldType = Some ''email'', confidence = 1\<rparr>"
  by code_simp

subsection \<open>Form and cluster discovery\<close>
















lemma withinRadius_sym: "withinRadius a b r = withinRadius b a r"
  by (simp add: withinRadius_def power2_commute algebra_simps)














text \<open>
  C3 on the code. The page \<open>applicationPage\<close> has one qualifying form with three inputs
  40 px apart. Detection records the form and then a virtual form made of
  the same three inputs: each input is assigned to two groups.
\<close>

theorem detectJobForms_reassigns_form_inputs:
  "detectJobForms applicationPage = [RealForm applicationForm, VirtualForm applicationInputs] \<and>
   groupInputs (RealForm applicationForm) = applicationInputs \<and>
   groupInputs (VirtualForm applicationInputs) = applicationInputs"
  by code_simp

subsection \<open>Select writer\<close>










subsection \<open>Selector resolver\<close>

lemma getElementSelector_name_verbatim:
  assumes "e_id element = []" and "e_name element \<noteq> []"
    and "qsa (attrSelector ''name'' (e_name element)) = Some 1"
  shows "getElementSelector qsa element = Inr (''[name='' @ dq @ e_name element @ dq @ '']'')"
  using assms by (simp add: getElementSelector_def stepName_def attrSelector_def)

text \<open>
  C2 on the code. Step 2 of the priority chain puts the \<open>name\<close> attribute between the
  quotes of \<open>[name="..."]\<close> as it is, without \<open>CSS.escape\<close> (steps 3 and 5 do the same
  with data attributes and the placeholder; steps 1 and 4 escape). For the input named
  \<open>a"],[name="b\<close> the resolver returns the selector list \<open>[name="a"],[name="b"]\<close>, which
  the document resolves to the other input, the one named \<open>b\<close>. For the name \<open>a"b\<close>
  the query of step 2 is not a valid selector, and its error leaves the resolver.
\<close>

theorem getElementSelector_unescaped_name:
  "getElementSelector (countAttrSelectors hostileDocument) hostileElement
     = Inr (''[name='' @ dq @ ''a'' @ dq @ ''],[name='' @ dq @ ''b'' @ dq @ '']'') \<and>
   queryAttrSelectors hostileDocument
       (''[name='' @ dq @ ''a'' @ dq @ ''],[name='' @ dq @ ''b'' @ dq @ '']'')
     = Some [[(''type'', ''text''), (''name'', ''b'')]] \<and>
   e_attributes hostileElement \<noteq> [(''type'', ''text''), (''name'', ''b'')] \<and>
   getElementSelector (countAttrSelectors hostileDocument)
       (hostileElement\<lparr>e_name := ''a'' @ dq @ ''b''\<rparr>)
     = Inl (SyntaxError (''[name='' @ dq @ ''a'' @ dq @ ''b'' @ dq @ '']''))"
  by code_simp

end
